theory Spec2Isabelle
  imports Complex_Main "HOL-Library.Code_Target_Numeral"
begin

section \<open>Python values\<close>

text \<open>
  The three converters (\<^verbatim>\<open>geojson_to_gpx.py\<close>, \<^verbatim>\<open>saved_places_to_csv.py\<close>,
  \<^verbatim>\<open>saved_places_to_html.py\<close>) work on the value that \<^verbatim>\<open>json.load\<close> returns.
  Exceptions are values of a sum type: \<open>Inl\<close> is the exception that leaves the function.

  Modelling boundaries, which hold for the whole development:
  \<^item> a Python string is a list of characters with code points 0 to 255;
  \<^item> a Python float is the number it denotes, an infinity, or NaN; numbers are exact:
    rounding to binary64, its range (and with it the OverflowError of \<^verbatim>\<open>float()\<close> on an
    integer beyond that range) and the sign of zero are outside the model;
  \<^item> a dictionary is an association list read with \<open>map_of\<close>.
\<close>

datatype pyerr = ValueError | TypeError | AttributeError

datatype pyfloat = Num real | PosInf | NegInf | NaN

datatype json =
    JNull
  | JBool bool
  | JInt int
  | JFloat pyfloat
  | JStr string
  | JList "json list"
  | JObj "(string \<times> json) list"

text \<open>
  Two library functions are parameters of the model:
  \<^item> \<open>repr_of\<close> is \<^verbatim>\<open>str()\<close> on a float, a list or a dictionary;
  \<^item> \<open>bracketed_host_ok\<close> is the test that \<^verbatim>\<open>urllib.parse.urlsplit\<close> applies to a host
    written in square brackets (\<^verbatim>\<open>_check_bracketed_host\<close>, which parses an IPv6 or
    IPvFuture address; Python versions before 3.11.4 accept every host).
\<close>

record pylib =
  repr_of :: "json \<Rightarrow> string"
  bracketed_host_ok :: "string \<Rightarrow> bool"

fun truthy :: "json \<Rightarrow> bool" where
  "truthy JNull = False"
| "truthy (JBool b) = b"
| "truthy (JInt n) = (n \<noteq> 0)"
| "truthy (JFloat x) = (x \<noteq> Num 0)"
| "truthy (JStr s) = (s \<noteq> [])"
| "truthy (JList xs) = (xs \<noteq> [])"
| "truthy (JObj kvs) = (kvs \<noteq> [])"

definition py_or :: "json \<Rightarrow> json \<Rightarrow> json" where
  \<comment> \<open>\<^verbatim>\<open>a or b\<close>\<close>
  "py_or a b = (if truthy a then a else b)"

definition py_get :: "(string \<times> json) list \<Rightarrow> string \<Rightarrow> json" where
  \<comment> \<open>\<^verbatim>\<open>d.get(k)\<close> on a dictionary: None when the key is absent\<close>
  "py_get d k = (case map_of d k of None \<Rightarrow> JNull | Some v \<Rightarrow> v)"

definition get_attr :: "json \<Rightarrow> string \<Rightarrow> pyerr + json" where
  \<comment> \<open>\<^verbatim>\<open>v.get(k)\<close> on any value: only a dictionary has the method\<close>
  "get_attr v k = (case v of JObj d \<Rightarrow> Inr (py_get d k) | _ \<Rightarrow> Inl AttributeError)"

subsection \<open>Characters and decimal numerals\<close>

definition is_digit :: "char \<Rightarrow> bool" where
  \<comment> \<open>\<^verbatim>\<open>\d\<close>: among the code points below 256 only the ASCII digits are decimal digits\<close>
  "is_digit c = (c \<in> set ''0123456789'')"

definition is_space :: "char \<Rightarrow> bool" where
  \<comment> \<open>\<^verbatim>\<open>str.isspace\<close> and \<^verbatim>\<open>\s\<close> on code points below 256\<close>
  "is_space c = ((of_char c :: nat) \<in> {9, 10, 11, 12, 13, 28, 29, 30, 31, 32, 133, 160})"

definition strip :: "string \<Rightarrow> string" where
  "strip s = rev (dropWhile is_space (rev (dropWhile is_space s)))"

definition lower_char :: "char \<Rightarrow> char" where
  \<comment> \<open>\<^verbatim>\<open>str.lower\<close> on one character: A-Z, and the capital letters of Latin-1 except the
      multiplication sign\<close>
  "lower_char c =
     (let n = (of_char c :: nat)
      in if (65 \<le> n \<and> n \<le> 90) \<or> (192 \<le> n \<and> n \<le> 222 \<and> n \<noteq> 215)
         then char_of (n + 32) else c)"

definition digit_val :: "char \<Rightarrow> nat" where
  "digit_val c = of_char c - 48"

definition nat_of_digits :: "string \<Rightarrow> nat" where
  "nat_of_digits ds = foldl (\<lambda>a c. 10 * a + digit_val c) 0 ds"

fun show_nat :: "nat \<Rightarrow> string" where
  "show_nat n =
     (if n < 10 then [char_of (48 + n)]
      else show_nat (n div 10) @ [char_of (48 + n mod 10)])"

declare show_nat.simps [simp del]

definition show_int :: "int \<Rightarrow> string" where
  "show_int i = (if i < 0 then CHR ''-'' # show_nat (nat (- i)) else show_nat (nat i))"

definition py_join :: "string \<Rightarrow> string list \<Rightarrow> string" where
  \<comment> \<open>\<^verbatim>\<open>sep.join(parts)\<close>\<close>
  "py_join sep parts =
     (case parts of [] \<Rightarrow> [] | p # ps \<Rightarrow> p @ concat (map (\<lambda>q. sep @ q) ps))"

subsection \<open>\<^verbatim>\<open>float()\<close>\<close>

definition is_float_space :: "char \<Rightarrow> bool" where
  \<comment> \<open>the white space that \<^verbatim>\<open>float()\<close> strips from a string\<close>
  "is_float_space c = ((of_char c :: nat) \<in> {9, 10, 11, 12, 13, 32, 133, 160})"

fun underscores_ok :: "char \<Rightarrow> string \<Rightarrow> bool" where
  \<comment> \<open>an underscore stands between two digits; the first argument is the previous character\<close>
  "underscores_ok prev [] = (prev \<noteq> CHR ''_'')"
| "underscores_ok prev (c # cs) =
     ((if c = CHR ''_'' then is_digit prev
       else if prev = CHR ''_'' then is_digit c else True)
      \<and> underscores_ok c cs)"

definition split_sign :: "string \<Rightarrow> bool \<times> string" where
  \<comment> \<open>an optional sign; True for minus\<close>
  "split_sign s =
     (case s of
        c # cs \<Rightarrow> if c = CHR ''-'' then (True, cs) else if c = CHR ''+'' then (False, cs)
                  else (False, s)
      | [] \<Rightarrow> (False, s))"

definition parse_exponent :: "string \<Rightarrow> int option" where
  \<comment> \<open>what follows the mantissa: nothing, or e, an optional sign and digits\<close>
  "parse_exponent s =
     (case s of
        [] \<Rightarrow> Some 0
      | c # cs \<Rightarrow>
          if c = CHR ''e'' \<or> c = CHR ''E'' then
            (let (neg, ds) = split_sign cs
             in if ds \<noteq> [] \<and> list_all is_digit ds
                then Some (if neg then - int (nat_of_digits ds) else int (nat_of_digits ds))
                else None)
          else None)"

definition scale10 :: "real \<Rightarrow> int \<Rightarrow> real" where
  "scale10 m e = (if 0 \<le> e then m * 10 ^ nat e else m / 10 ^ nat (- e))"

definition parse_decimal :: "string \<Rightarrow> real option" where
  \<comment> \<open>an unsigned decimal numeral: digits, an optional point and digits (a digit on one side
      of the point at least), an optional exponent\<close>
  "parse_decimal s =
     (let ip = takeWhile is_digit s; r1 = dropWhile is_digit s;
          has_point = (r1 \<noteq> [] \<and> hd r1 = CHR ''.'');
          fp = (if has_point then takeWhile is_digit (tl r1) else []);
          r2 = (if has_point then dropWhile is_digit (tl r1) else r1)
      in if ip = [] \<and> fp = [] then None
         else (case parse_exponent r2 of
                 None \<Rightarrow> None
               | Some e \<Rightarrow>
                   Some (scale10 (real (nat_of_digits ip)
                                  + real (nat_of_digits fp) / 10 ^ length fp) e)))"

definition float_of_string :: "string \<Rightarrow> pyfloat option" where
  \<comment> \<open>\<^verbatim>\<open>float(s)\<close> on a string; None is ValueError\<close>
  "float_of_string s =
     (if \<not> underscores_ok (CHR 0x00) s then None
      else
        (let t = filter (\<lambda>c. c \<noteq> CHR ''_'') s;
             u = rev (dropWhile is_float_space (rev (dropWhile is_float_space t)));
             (neg, body) = split_sign u;
             w = map lower_char body
         in if w = ''inf'' \<or> w = ''infinity'' then Some (if neg then NegInf else PosInf)
            else if w = ''nan'' then Some NaN
            else (case parse_decimal body of
                    None \<Rightarrow> None
                  | Some x \<Rightarrow> Some (Num (if neg then - x else x)))))"

definition py_float :: "json \<Rightarrow> pyerr + pyfloat" where
  \<comment> \<open>\<^verbatim>\<open>float(v)\<close>\<close>
  "py_float v =
     (case v of
        JFloat x \<Rightarrow> Inr x
      | JInt n \<Rightarrow> Inr (Num (of_int n))
      | JBool b \<Rightarrow> Inr (Num (if b then 1 else 0))
      | JStr s \<Rightarrow> (case float_of_string s of None \<Rightarrow> Inl ValueError | Some x \<Rightarrow> Inr x)
      | _ \<Rightarrow> Inl TypeError)"

definition py_abs_lt :: "pyfloat \<Rightarrow> real \<Rightarrow> bool" where
  \<comment> \<open>\<^verbatim>\<open>abs(x) < bound\<close>: false for an infinity and for NaN\<close>
  "py_abs_lt x bound = (case x of Num r \<Rightarrow> \<bar>r\<bar> < bound | _ \<Rightarrow> False)"

section \<open>Library functions on URLs\<close>

subsection \<open>The regular expressions\<close>

text \<open>
  \<^verbatim>\<open>-?\d+(?:\.\d+)?\<close> at the start of a text: the matched text and the rest, with the
  longest run of digits and the fraction whenever a digit follows the point. In each of
  the patterns below, what follows the number is a comma, white space or the end of the
  text, so that no shorter match of the number can succeed where this one fails, and
  backtracking adds nothing.
\<close>

definition match_number :: "string \<Rightarrow> (string \<times> string) option" where
  "match_number s =
     (let (sgn, s1) = (case s of c # cs \<Rightarrow> if c = CHR ''-'' then (''-'', cs) else ([], s)
                                | [] \<Rightarrow> ([], s));
          ds = takeWhile is_digit s1; r1 = dropWhile is_digit s1
      in if ds = [] then None
         else (case r1 of
                 c # cs \<Rightarrow>
                   if c = CHR ''.'' \<and> takeWhile is_digit cs \<noteq> []
                   then Some (sgn @ ds @ ''.'' @ takeWhile is_digit cs, dropWhile is_digit cs)
                   else Some (sgn @ ds, r1)
               | [] \<Rightarrow> Some (sgn @ ds, r1)))"

definition match_q_pair :: "string \<Rightarrow> (string \<times> string) option" where
  \<comment> \<open>\<^verbatim>\<open>[?&]q=(-?\d+(?:\.\d+)?),(-?\d+(?:\.\d+)?)\<close> at the start of a text: the two groups\<close>
  "match_q_pair s =
     (case s of
        c0 # c1 # c2 # rest \<Rightarrow>
          if (c0 = CHR ''?'' \<or> c0 = CHR ''&'') \<and> c1 = CHR ''q'' \<and> c2 = CHR ''='' then
            (case match_number rest of
               None \<Rightarrow> None
             | Some (g1, r1) \<Rightarrow>
                 (case r1 of
                    d # r2 \<Rightarrow>
                      if d = CHR '','' then
                        (case match_number r2 of
                           None \<Rightarrow> None
                         | Some (g2, r3) \<Rightarrow> Some (g1, g2))
                      else None
                  | [] \<Rightarrow> None))
          else None
      | _ \<Rightarrow> None)"

fun search_q_pair :: "string \<Rightarrow> (string \<times> string) option" where
  \<comment> \<open>\<^verbatim>\<open>re.search\<close>: the match at the leftmost position that has one\<close>
  "search_q_pair [] = None"
| "search_q_pair (c # cs) =
     (case match_q_pair (c # cs) of Some g \<Rightarrow> Some g | None \<Rightarrow> search_q_pair cs)"

definition match_coord_text :: "string \<Rightarrow> (string \<times> string) option" where
  \<comment> \<open>\<^verbatim>\<open>re.match(r"^\s*(-?\d+(?:\.\d+)?)\s*,\s*(-?\d+(?:\.\d+)?)\s*$", text)\<close>\<close>
  "match_coord_text s =
     (case match_number (dropWhile is_space s) of
        None \<Rightarrow> None
      | Some (g1, r1) \<Rightarrow>
          (case dropWhile is_space r1 of
             c # r2 \<Rightarrow>
               if c = CHR '','' then
                 (case match_number (dropWhile is_space r2) of
                    None \<Rightarrow> None
                  | Some (g2, r3) \<Rightarrow>
                      if dropWhile is_space r3 = [] then Some (g1, g2) else None)
               else None
           | [] \<Rightarrow> None))"

subsection \<open>\<^verbatim>\<open>urllib.parse.urlparse(url).query\<close>\<close>

text \<open>
  The steps of \<^verbatim>\<open>urlsplit\<close> (CPython 3.11) that decide the query and the exception:
  leading control characters and spaces are dropped, tabs and line breaks removed, a
  scheme is cut off, a network location after \<^verbatim>\<open>//\<close> is cut off and its square brackets
  are checked, then the fragment is dropped and the query is what follows the first
  question mark. The check of the network location under NFKC normalisation never
  fails on code points below 256.
\<close>

definition is_ascii_alpha :: "char \<Rightarrow> bool" where
  "is_ascii_alpha c =
     (let n = (of_char c :: nat) in (65 \<le> n \<and> n \<le> 90) \<or> (97 \<le> n \<and> n \<le> 122))"

definition is_scheme_char :: "char \<Rightarrow> bool" where
  "is_scheme_char c = (is_ascii_alpha c \<or> is_digit c \<or> c \<in> set ''+-.'')"

definition strip_scheme :: "string \<Rightarrow> string" where
  "strip_scheme url =
     (let pre = takeWhile (\<lambda>c. c \<noteq> CHR '':'') url
      in if length pre < length url \<and> pre \<noteq> [] \<and> is_ascii_alpha (hd pre)
            \<and> list_all is_scheme_char pre
         then drop (length pre + 1) url else url)"

definition bracketed_host :: "string \<Rightarrow> string" where
  \<comment> \<open>\<^verbatim>\<open>netloc.partition('[')[2].partition(']')[0]\<close>\<close>
  "bracketed_host netloc =
     takeWhile (\<lambda>c. c \<noteq> CHR '']'') (drop 1 (dropWhile (\<lambda>c. c \<noteq> CHR ''['') netloc))"

definition urlparse_query :: "pylib \<Rightarrow> string \<Rightarrow> pyerr + string" where
  "urlparse_query lib url0 =
     (let url1 = dropWhile (\<lambda>c. (of_char c :: nat) \<le> 32) url0;
          url2 = filter (\<lambda>c. c \<notin> {CHR 0x09, CHR 0x0D, CHR 0x0A}) url1;
          url3 = strip_scheme url2;
          has_netloc = (take 2 url3 = ''//'');
          netloc = (if has_netloc
                    then takeWhile (\<lambda>c. c \<notin> set ''/?#'') (drop 2 url3) else []);
          url4 = (if has_netloc
                  then dropWhile (\<lambda>c. c \<notin> set ''/?#'') (drop 2 url3) else url3);
          opening = (CHR ''['' \<in> set netloc);
          closing = (CHR '']'' \<in> set netloc)
      in if (opening \<and> \<not> closing) \<or> (closing \<and> \<not> opening) then Inl ValueError
         else if opening \<and> closing \<and> \<not> bracketed_host_ok lib (bracketed_host netloc)
         then Inl ValueError
         else Inr (drop 1 (dropWhile (\<lambda>c. c \<noteq> CHR ''?'')
                             (takeWhile (\<lambda>c. c \<noteq> CHR ''#'') url4))))"

subsection \<open>\<^verbatim>\<open>urllib.parse.unquote\<close> and \<^verbatim>\<open>parse_qs\<close>\<close>

definition hex_val :: "char \<Rightarrow> nat option" where
  "hex_val c =
     (let n = (of_char c :: nat)
      in if 48 \<le> n \<and> n \<le> 57 then Some (n - 48)
         else if 65 \<le> n \<and> n \<le> 70 then Some (n - 55)
         else if 97 \<le> n \<and> n \<le> 102 then Some (n - 87)
         else None)"

fun unquote_to_bytes :: "string \<Rightarrow> char list" where
  \<comment> \<open>a percent sign and two hexadecimal digits become one byte\<close>
  "unquote_to_bytes [] = []"
| "unquote_to_bytes (c # cs) =
     (if c = CHR ''%'' then
        (case cs of
           h1 # h2 # rest \<Rightarrow>
             (case (hex_val h1, hex_val h2) of
                (Some a, Some b) \<Rightarrow> char_of (16 * a + b) # unquote_to_bytes rest
              | _ \<Rightarrow> c # unquote_to_bytes cs)
         | _ \<Rightarrow> c # unquote_to_bytes cs)
      else c # unquote_to_bytes cs)"

text \<open>
  Decoding UTF-8 with \<^verbatim>\<open>errors='replace'\<close>. The state is the number of continuation
  bytes still due, the range allowed for the next byte, and the code point read so far.
  The longest prefix of a well-formed sequence that is not completed becomes one
  replacement character. The model writes a question mark for the replacement character
  U+FFFD and for every decoded code point from 256 on, which its characters do not hold.
\<close>

type_synonym utf8_state = "nat \<times> nat \<times> nat \<times> nat"

definition utf8_start :: "nat \<Rightarrow> string \<times> utf8_state" where
  \<comment> \<open>a byte read when no sequence is open\<close>
  "utf8_start b =
     (if b < 128 then ([char_of b], (0, 0, 0, 0))
      else if 194 \<le> b \<and> b \<le> 223 then ([], (1, 128, 191, b - 192))
      else if b = 224 then ([], (2, 160, 191, b - 224))
      else if b = 237 then ([], (2, 128, 159, b - 224))
      else if 225 \<le> b \<and> b \<le> 239 then ([], (2, 128, 191, b - 224))
      else if b = 240 then ([], (3, 144, 191, b - 240))
      else if 241 \<le> b \<and> b \<le> 243 then ([], (3, 128, 191, b - 240))
      else if b = 244 then ([], (3, 128, 143, b - 240))
      else (''?'', (0, 0, 0, 0)))"

definition utf8_step :: "utf8_state \<Rightarrow> nat \<Rightarrow> string \<times> utf8_state" where
  "utf8_step st b =
     (case st of (due, lo, hi, cp) \<Rightarrow>
        if due = 0 then utf8_start b
        else if lo \<le> b \<and> b \<le> hi then
          (let cp' = 64 * cp + (b - 128)
           in if due = 1 then ([if cp' < 256 then char_of cp' else CHR ''?''], (0, 0, 0, 0))
              else ([], (due - 1, 128, 191, cp')))
        else (case utf8_start b of (out, st') \<Rightarrow> (CHR ''?'' # out, st')))"

fun utf8_decode :: "utf8_state \<Rightarrow> char list \<Rightarrow> string" where
  "utf8_decode st [] = (if fst st = 0 then [] else ''?'')"
| "utf8_decode st (b # bs) =
     (case utf8_step st (of_char b) of (out, st') \<Rightarrow> out @ utf8_decode st' bs)"

fun ascii_runs :: "string \<Rightarrow> (bool \<times> string) list" where
  \<comment> \<open>the text cut into its longest runs of ASCII and of other characters\<close>
  "ascii_runs [] = []"
| "ascii_runs (c # cs) =
     (let a = ((of_char c :: nat) < 128)
      in case ascii_runs cs of
           (b, r) # rest \<Rightarrow> if a = b then (a, c # r) # rest else (a, [c]) # (b, r) # rest
         | [] \<Rightarrow> [(a, [c])])"

definition unquote :: "string \<Rightarrow> string" where
  "unquote s =
     (if CHR ''%'' \<notin> set s then s
      else concat (map (\<lambda>(a, r). if a then utf8_decode (0, 0, 0, 0) (unquote_to_bytes r) else r)
                       (ascii_runs s)))"

definition replace_plus :: "string \<Rightarrow> string" where
  \<comment> \<open>\<^verbatim>\<open>s.replace("+", " ")\<close>\<close>
  "replace_plus s = map (\<lambda>c. if c = CHR ''+'' then CHR '' '' else c) s"

fun split_on :: "char \<Rightarrow> string \<Rightarrow> string list" where
  \<comment> \<open>\<^verbatim>\<open>s.split(sep)\<close> for a separator of one character\<close>
  "split_on sep [] = [[]]"
| "split_on sep (c # cs) =
     (if c = sep then [] # split_on sep cs
      else (case split_on sep cs of w # ws \<Rightarrow> (c # w) # ws | [] \<Rightarrow> [[c]]))"

definition parse_qsl :: "string \<Rightarrow> (string \<times> string) list" where
  \<comment> \<open>the fields between ampersands that have a name and a value that is not empty\<close>
  "parse_qsl qs =
     (if qs = [] then []
      else concat (map (\<lambda>field.
             (let name = takeWhile (\<lambda>c. c \<noteq> CHR ''='') field;
                  val = drop 1 (dropWhile (\<lambda>c. c \<noteq> CHR ''='') field)
              in if field \<noteq> [] \<and> val \<noteq> []
                 then [(unquote (replace_plus name), unquote (replace_plus val))] else []))
           (split_on CHR ''&'' qs)))"

definition query_q :: "string \<Rightarrow> string option" where
  \<comment> \<open>\<^verbatim>\<open>parse_qs(query)\<close> read at the key q: its first value, if it has one\<close>
  "query_q query = map_of (parse_qsl query) ''q''"

section \<open>The place-resolution functions\<close>

text \<open>
  \<^verbatim>\<open>parse_latlon_from_url\<close>, \<^verbatim>\<open>extract_lat_lon\<close> and \<^verbatim>\<open>derive_name_from_url\<close> are the
  same in the three files up to comments and the names of local variables (the GPX file
  tests \<^verbatim>\<open>"q" not in qs\<close> where the other two test \<^verbatim>\<open>not qs.get("q")\<close>; every key of
  \<^verbatim>\<open>parse_qs\<close> has a value).
\<close>

definition float_pair :: "string \<Rightarrow> string \<Rightarrow> (pyfloat \<times> pyfloat) option" where
  \<comment> \<open>\<^verbatim>\<open>float(g1), float(g2)\<close> inside \<^verbatim>\<open>try ... except ValueError\<close>; None is the handler\<close>
  "float_pair g1 g2 =
     (case float_of_string g1 of
        None \<Rightarrow> None
      | Some lat \<Rightarrow> (case float_of_string g2 of None \<Rightarrow> None | Some lon \<Rightarrow> Some (lat, lon)))"

definition q_text_of :: "string \<Rightarrow> string" where
  \<comment> \<open>\<^verbatim>\<open>unquote(q_raw.replace("+", " ")).strip()\<close>\<close>
  "q_text_of q_raw = strip (unquote (replace_plus q_raw))"

definition parse_latlon_from_url :: "pylib \<Rightarrow> string \<Rightarrow> pyerr + (pyfloat \<times> pyfloat) option" where
  "parse_latlon_from_url lib url =
     (if url = [] then Inr None
      else
        (case (case search_q_pair url of None \<Rightarrow> None | Some (g1, g2) \<Rightarrow> float_pair g1 g2) of
           Some ll \<Rightarrow> Inr (Some ll)
         | None \<Rightarrow>
             (case urlparse_query lib url of
                Inl e \<Rightarrow> Inl e
              | Inr query \<Rightarrow>
                  (case query_q query of
                     None \<Rightarrow> Inr None
                   | Some q_raw \<Rightarrow>
                       (case match_coord_text (q_text_of q_raw) of
                          None \<Rightarrow> Inr None
                        | Some (g1, g2) \<Rightarrow> Inr (float_pair g1 g2))))))"

definition near_zero :: "pyfloat \<Rightarrow> bool" where
  \<comment> \<open>\<^verbatim>\<open>abs(x) < 1e-12\<close>\<close>
  "near_zero x = py_abs_lt x (1 / 10 ^ 12)"

definition geometry_lat_lon :: "json \<Rightarrow> pyerr + (pyfloat \<times> pyfloat) option" where
  \<comment> \<open>step 1 of \<^verbatim>\<open>extract_lat_lon\<close>, on the value of \<^verbatim>\<open>geom\<close>; None falls through to step 2\<close>
  "geometry_lat_lon geom =
     (case geom of
        JObj g \<Rightarrow>
          if py_get g ''type'' = JStr ''Point'' then
            (case py_get g ''coordinates'' of
               JList (c0 # c1 # cs) \<Rightarrow>
                 if c0 \<noteq> JNull \<and> c1 \<noteq> JNull then
                   (case py_float c0 of
                      Inl e \<Rightarrow> Inl e
                    | Inr lon \<Rightarrow>
                        (case py_float c1 of
                           Inl e \<Rightarrow> Inl e
                         | Inr lat \<Rightarrow>
                             if \<not> (near_zero lat \<and> near_zero lon) then Inr (Some (lat, lon))
                             else Inr None))
                 else Inr None
             | _ \<Rightarrow> Inr None)
          else Inr None
      | _ \<Rightarrow> Inr None)"

definition url_lat_lon :: "pylib \<Rightarrow> json \<Rightarrow> pyerr + (pyfloat \<times> pyfloat) option" where
  \<comment> \<open>step 2 of \<^verbatim>\<open>extract_lat_lon\<close>, on the value of \<^verbatim>\<open>props\<close>; a pair is truthy, so
      \<^verbatim>\<open>if parsed\<close> holds whenever the parser returns one\<close>
  "url_lat_lon lib props =
     (case props of
        JObj p \<Rightarrow>
          (case py_or (py_get p ''google_maps_url'') (py_get p ''Google Maps URL'') of
             JStr url \<Rightarrow> parse_latlon_from_url lib url
           | _ \<Rightarrow> Inr None)
      | _ \<Rightarrow> Inl AttributeError)"

definition extract_lat_lon :: "pylib \<Rightarrow> json \<Rightarrow> pyerr + (pyfloat \<times> pyfloat) option" where
  "extract_lat_lon lib feature =
     (case feature of
        JObj f \<Rightarrow>
          (let geom = py_or (py_get f ''geometry'') (JObj []);
               props = py_or (py_get f ''properties'') (JObj [])
           in case geometry_lat_lon geom of
                Inl e \<Rightarrow> Inl e
              | Inr (Some ll) \<Rightarrow> Inr (Some ll)
              | Inr None \<Rightarrow> url_lat_lon lib props)
      | _ \<Rightarrow> Inl AttributeError)"

definition derive_name_from_url :: "pylib \<Rightarrow> string \<Rightarrow> pyerr + string option" where
  "derive_name_from_url lib url =
     (case urlparse_query lib url of
        Inl e \<Rightarrow> Inl e
      | Inr query \<Rightarrow>
          (case query_q query of
             None \<Rightarrow> Inr None
           | Some q_raw \<Rightarrow>
               (let q_text = q_text_of q_raw
                in if match_coord_text q_text \<noteq> None then Inr None
                   else
                     (let q_text' = (if take 2 (map lower_char q_text) = ''m,''
                                     then strip (drop 2 q_text) else q_text)
                      in if q_text' \<noteq> [] then Inr (Some q_text') else Inr None))))"

subsection \<open>Names and annotations\<close>

definition py_str :: "pylib \<Rightarrow> json \<Rightarrow> string" where
  \<comment> \<open>\<^verbatim>\<open>str(v)\<close>, which is also what an f-string writes for \<^verbatim>\<open>{v}\<close>\<close>
  "py_str lib v =
     (case v of
        JStr s \<Rightarrow> s
      | JInt n \<Rightarrow> show_int n
      | JBool b \<Rightarrow> (if b then ''True'' else ''False'')
      | JNull \<Rightarrow> ''None''
      | _ \<Rightarrow> repr_of lib v)"

definition label_keys :: "string list" where
  "label_keys = [''name'', ''Name'', ''title'', ''Title'', ''label'', ''Label'']"

fun first_label :: "pylib \<Rightarrow> (string \<times> json) list \<Rightarrow> string list \<Rightarrow> string option" where
  \<comment> \<open>the loop over the keys: the first key that is in \<^verbatim>\<open>props\<close> with a truthy value\<close>
  "first_label lib props [] = None"
| "first_label lib props (key # keys) =
     (case map_of props key of
        Some v \<Rightarrow> if truthy v then Some (py_str lib v) else first_label lib props keys
      | None \<Rightarrow> first_label lib props keys)"

definition location_name :: "pylib \<Rightarrow> json \<Rightarrow> string option" where
  \<comment> \<open>\<^verbatim>\<open>isinstance(loc, dict) and loc.get("name")\<close>, then \<^verbatim>\<open>str(loc["name"])\<close>\<close>
  "location_name lib loc =
     (case loc of
        JObj l \<Rightarrow> if truthy (py_get l ''name'') then Some (py_str lib (py_get l ''name'')) else None
      | _ \<Rightarrow> None)"

definition url_name :: "pylib \<Rightarrow> (string \<times> json) list \<Rightarrow> pyerr + string option" where
  \<comment> \<open>the name from the URL: \<^verbatim>\<open>url = props.get("google_maps_url") or props.get("Google Maps URL")\<close>,
      then \<^verbatim>\<open>derive_name_from_url(url)\<close> if \<^verbatim>\<open>isinstance(url, str)\<close>\<close>
  "url_name lib props =
     (case py_or (py_get props ''google_maps_url'') (py_get props ''Google Maps URL'') of
        JStr url \<Rightarrow> derive_name_from_url lib url
      | _ \<Rightarrow> Inr None)"

definition resolve_name :: "pylib \<Rightarrow> (string \<times> json) list \<Rightarrow> json \<Rightarrow> int \<Rightarrow> pyerr + string" where
  \<comment> \<open>steps 1 to 4 of \<^verbatim>\<open>extract_name_and_desc\<close> (GPX) and \<^verbatim>\<open>extract_name_and_notes\<close> (CSV),
      the same statements in both; the empty text stands for a \<^verbatim>\<open>name_val\<close> that is None,
      both being what \<^verbatim>\<open>not name_val\<close> accepts\<close>
  "resolve_name lib props loc idx =
     (let name1 = (case location_name lib loc of Some n \<Rightarrow> n | None \<Rightarrow> [])
      in case (if name1 = [] then
                 (case url_name lib props of
                    Inl e \<Rightarrow> Inl e
                  | Inr (Some n) \<Rightarrow> Inr n
                  | Inr None \<Rightarrow> Inr name1)
               else Inr name1) of
           Inl e \<Rightarrow> Inl e
         | Inr name2 \<Rightarrow>
             (let name3 = (if name2 = [] then
                             (case first_label lib props label_keys of
                                Some n \<Rightarrow> n
                              | None \<Rightarrow> name2)
                           else name2)
              in Inr (if name3 = [] then ''Saved Place '' @ show_int idx else name3)))"

definition saved_part :: "pylib \<Rightarrow> (string \<times> json) list \<Rightarrow> string list" where
  "saved_part lib props =
     (if truthy (py_get props ''date'') then [''Saved: '' @ py_str lib (py_get props ''date'')]
      else [])"

definition address_part :: "pylib \<Rightarrow> json \<Rightarrow> string list" where
  "address_part lib loc =
     (case loc of
        JObj l \<Rightarrow> if truthy (py_get l ''address'')
                  then [''Address: '' @ py_str lib (py_get l ''address'')] else []
      | _ \<Rightarrow> [])"

definition url_part :: "(string \<times> json) list \<Rightarrow> string list" where
  \<comment> \<open>in the GPX file only\<close>
  "url_part props =
     (case py_or (py_get props ''google_maps_url'') (py_get props ''Google Maps URL'') of
        JStr url \<Rightarrow> [''Google Maps: '' @ url]
      | _ \<Rightarrow> [])"

definition comment_part :: "pylib \<Rightarrow> (string \<times> json) list \<Rightarrow> string list" where
  "comment_part lib props =
     (let comment = py_or (py_get props ''Comment'') (py_get props ''comment'')
      in if truthy comment then [py_str lib comment] else [])"

definition extract_name_and_desc :: "pylib \<Rightarrow> json \<Rightarrow> int \<Rightarrow> pyerr + (string \<times> string)" where
  \<comment> \<open>geojson_to_gpx.py\<close>
  "extract_name_and_desc lib feature idx =
     (case feature of
        JObj f \<Rightarrow>
          (case py_or (py_get f ''properties'') (JObj []) of
             JObj props \<Rightarrow>
               (let loc = py_or (py_get props ''location'') (JObj [])
                in case resolve_name lib props loc idx of
                     Inl e \<Rightarrow> Inl e
                   | Inr name_val \<Rightarrow>
                       Inr (name_val,
                            py_join '' | '' (saved_part lib props @ address_part lib loc
                                              @ url_part props @ comment_part lib props)))
           | _ \<Rightarrow> Inl AttributeError)
      | _ \<Rightarrow> Inl AttributeError)"

definition extract_name_and_notes :: "pylib \<Rightarrow> json \<Rightarrow> int \<Rightarrow> pyerr + (string \<times> string)" where
  \<comment> \<open>saved_places_to_csv.py\<close>
  "extract_name_and_notes lib feature idx =
     (case feature of
        JObj f \<Rightarrow>
          (case py_or (py_get f ''properties'') (JObj []) of
             JObj props \<Rightarrow>
               (let loc = py_or (py_get props ''location'') (JObj [])
                in case resolve_name lib props loc idx of
                     Inl e \<Rightarrow> Inl e
                   | Inr name_val \<Rightarrow>
                       Inr (name_val,
                            py_join '' | '' (saved_part lib props @ address_part lib loc
                                              @ comment_part lib props)))
           | _ \<Rightarrow> Inl AttributeError)
      | _ \<Rightarrow> Inl AttributeError)"

definition extract_name :: "pylib \<Rightarrow> json \<Rightarrow> int \<Rightarrow> pyerr + string" where
  \<comment> \<open>saved_places_to_html.py: the same order, with a return at each step\<close>
  "extract_name lib feature idx =
     (case feature of
        JObj f \<Rightarrow>
          (case py_or (py_get f ''properties'') (JObj []) of
             JObj props \<Rightarrow>
               (case location_name lib (py_or (py_get props ''location'') (JObj [])) of
                  Some n \<Rightarrow> Inr n
                | None \<Rightarrow>
                    (case url_name lib props of
                       Inl e \<Rightarrow> Inl e
                     | Inr (Some n) \<Rightarrow> Inr n
                     | Inr None \<Rightarrow>
                         (case first_label lib props label_keys of
                            Some n \<Rightarrow> Inr n
                          | None \<Rightarrow> Inr (''Saved Place '' @ show_int idx))))
           | _ \<Rightarrow> Inl AttributeError)
      | _ \<Rightarrow> Inl AttributeError)"

section \<open>The record extraction pipelines\<close>

definition round_half_even :: "real \<Rightarrow> int" where
  "round_half_even y =
     (let k = \<lfloor>y\<rfloor>; d = y - of_int k
      in if d < 1 / 2 then k else if 1 / 2 < d then k + 1 else if even k then k else k + 1)"

definition fmt8 :: "pyfloat \<Rightarrow> string" where
  \<comment> \<open>the format \<^verbatim>\<open>{x:.8f}\<close>\<close>
  "fmt8 x =
     (case x of
        Num r \<Rightarrow>
          (let n = nat (round_half_even (\<bar>r\<bar> * 10 ^ 8));
               frac = show_nat (n mod 10 ^ 8)
           in (if r < 0 then ''-'' else []) @ show_nat (n div 10 ^ 8) @ ''.''
              @ replicate (8 - length frac) CHR ''0'' @ frac)
      | PosInf \<Rightarrow> ''inf''
      | NegInf \<Rightarrow> ''-inf''
      | NaN \<Rightarrow> ''nan'')"

definition py_iter :: "json \<Rightarrow> pyerr + json list" where
  \<comment> \<open>the values that a \<^verbatim>\<open>for\<close> loop over \<^verbatim>\<open>enumerate(v, start=1)\<close> visits: the elements
      of a list, the characters of a string, the keys of a dictionary\<close>
  "py_iter v =
     (case v of
        JList xs \<Rightarrow> Inr xs
      | JStr s \<Rightarrow> Inr (map (\<lambda>c. JStr [c]) s)
      | JObj d \<Rightarrow> Inr (map JStr (remdups (map fst d)))
      | _ \<Rightarrow> Inl TypeError)"

definition features_of :: "json \<Rightarrow> pyerr + json list" where
  \<comment> \<open>\<^verbatim>\<open>data.get("features") or []\<close>, as the loop reads it\<close>
  "features_of data =
     (case data of
        JObj d \<Rightarrow> py_iter (py_or (py_get d ''features'') (JList []))
      | _ \<Rightarrow> Inl AttributeError)"

fun collect :: "(json \<Rightarrow> int \<Rightarrow> pyerr + 'a option) \<Rightarrow> json list \<Rightarrow> int \<Rightarrow> pyerr + 'a list" where
  \<comment> \<open>the loop \<^verbatim>\<open>for i, feat in enumerate(features, start=1)\<close>: the body yields a record to
      append, or nothing, or raises\<close>
  "collect body [] i = Inr []"
| "collect body (feat # feats) i =
     (case body feat i of
        Inl e \<Rightarrow> Inl e
      | Inr r \<Rightarrow>
          (case collect body feats (i + 1) of
             Inl e \<Rightarrow> Inl e
           | Inr rs \<Rightarrow> Inr ((case r of None \<Rightarrow> [] | Some x \<Rightarrow> [x]) @ rs)))"

subsection \<open>saved_places_to_csv.py\<close>

record csv_row =
  row_name :: string
  row_latitude :: string
  row_longitude :: string
  row_url :: json
  row_notes :: string

definition csv_row_of :: "pylib \<Rightarrow> json \<Rightarrow> int \<Rightarrow> pyerr + csv_row option" where
  \<comment> \<open>the body of the loop of \<^verbatim>\<open>json_to_rows\<close>\<close>
  "csv_row_of lib feat i =
     (case extract_lat_lon lib feat of
        Inl e \<Rightarrow> Inl e
      | Inr None \<Rightarrow> Inr None
      | Inr (Some (lat, lon)) \<Rightarrow>
          (case get_attr feat ''properties'' of
             Inl e \<Rightarrow> Inl e
           | Inr pv \<Rightarrow>
               (case py_or pv (JObj []) of
                  JObj props \<Rightarrow>
                    (case extract_name_and_notes lib feat i of
                       Inl e \<Rightarrow> Inl e
                     | Inr (name_val, notes) \<Rightarrow>
                         Inr (Some \<lparr>row_name = name_val,
                                    row_latitude = fmt8 lat,
                                    row_longitude = fmt8 lon,
                                    row_url = py_or (py_or (py_get props ''google_maps_url'')
                                                           (py_get props ''Google Maps URL''))
                                                    (JStr []),
                                    row_notes = notes\<rparr>))
                | _ \<Rightarrow> Inl AttributeError)))"

definition json_to_rows :: "pylib \<Rightarrow> json \<Rightarrow> pyerr + csv_row list" where
  "json_to_rows lib data =
     (case features_of data of
        Inl e \<Rightarrow> Inl e
      | Inr features \<Rightarrow> collect (csv_row_of lib) features 1)"

subsection \<open>saved_places_to_html.py\<close>

record html_entry =
  entry_name :: string
  entry_lat :: string
  entry_lon :: string
  entry_date :: json
  entry_gmaps_url :: json

definition html_entry_of :: "pylib \<Rightarrow> json \<Rightarrow> int \<Rightarrow> pyerr + html_entry option" where
  \<comment> \<open>the body of the loop of \<^verbatim>\<open>json_to_entries\<close>\<close>
  "html_entry_of lib feat i =
     (case extract_lat_lon lib feat of
        Inl e \<Rightarrow> Inl e
      | Inr None \<Rightarrow> Inr None
      | Inr (Some (lat, lon)) \<Rightarrow>
          (case extract_name lib feat i of
             Inl e \<Rightarrow> Inl e
           | Inr name_val \<Rightarrow>
               (case get_attr feat ''properties'' of
                  Inl e \<Rightarrow> Inl e
                | Inr pv \<Rightarrow>
                    (case py_or pv (JObj []) of
                       JObj props \<Rightarrow>
                         Inr (Some \<lparr>entry_name = name_val,
                                    entry_lat = fmt8 lat,
                                    entry_lon = fmt8 lon,
                                    entry_date = (case map_of props ''date'' of
                                                    None \<Rightarrow> JStr [] | Some v \<Rightarrow> v),
                                    entry_gmaps_url =
                                      py_or (py_or (py_get props ''google_maps_url'')
                                                   (py_get props ''Google Maps URL''))
                                            (JStr [])\<rparr>)
                     | _ \<Rightarrow> Inl AttributeError))))"

definition json_to_entries :: "pylib \<Rightarrow> json \<Rightarrow> pyerr + html_entry list" where
  "json_to_entries lib data =
     (case features_of data of
        Inl e \<Rightarrow> Inl e
      | Inr features \<Rightarrow> collect (html_entry_of lib) features 1)"

subsection \<open>geojson_to_gpx.py\<close>

definition html_escape :: "string \<Rightarrow> string" where
  \<comment> \<open>\<^verbatim>\<open>html.escape(s, quote=True)\<close>\<close>
  "html_escape s =
     concat (map (\<lambda>c. if c = CHR ''&'' then ''&amp;''
                       else if c = CHR ''<'' then ''&lt;''
                       else if c = CHR ''>'' then ''&gt;''
                       else if c = CHR 0x22 then ''&quot;''
                       else if c = CHR 0x27 then ''&#x27;''
                       else [c]) s)"

definition feature_to_wpt :: "pylib \<Rightarrow> json \<Rightarrow> int \<Rightarrow> pyerr + string" where
  "feature_to_wpt lib feature idx =
     (case extract_lat_lon lib feature of
        Inl e \<Rightarrow> Inl e
      | Inr None \<Rightarrow> Inr []
      | Inr (Some (lat, lon)) \<Rightarrow>
          (case extract_name_and_desc lib feature idx of
             Inl e \<Rightarrow> Inl e
           | Inr (name_val, desc_val) \<Rightarrow>
               (let name_xml = html_escape name_val;
                    desc_xml = html_escape desc_val
                in Inr (py_join [CHR 0x0A]
                          ([''  <wpt lat='' @ [CHR 0x22] @ fmt8 lat @ [CHR 0x22] @ '' lon=''
                              @ [CHR 0x22] @ fmt8 lon @ [CHR 0x22] @ ''>'',
                            ''    <name>'' @ name_xml @ ''</name>'']
                           @ (if desc_xml \<noteq> [] then [''    <desc>'' @ desc_xml @ ''</desc>'']
                              else [])
                           @ [''  </wpt>''])))))"

definition gpx_wpts :: "pylib \<Rightarrow> json \<Rightarrow> pyerr + string list" where
  \<comment> \<open>the list \<^verbatim>\<open>wpts\<close> of \<^verbatim>\<open>json_to_gpx\<close> when its loop ends\<close>
  "gpx_wpts lib data =
     (case features_of data of
        Inl e \<Rightarrow> Inl e
      | Inr features \<Rightarrow>
          collect (\<lambda>feat i. case feature_to_wpt lib feat i of
                              Inl e \<Rightarrow> Inl e
                            | Inr w \<Rightarrow> Inr (if w \<noteq> [] then Some w else None))
                  features 1)"

definition gpx_header :: "string list" where
  "gpx_header =
     [''<?xml version='' @ [CHR 0x22] @ ''1.0'' @ [CHR 0x22] @ '' encoding='' @ [CHR 0x22]
        @ ''UTF-8'' @ [CHR 0x22] @ ''?>'',
      ''<gpx version='' @ [CHR 0x22] @ ''1.1'' @ [CHR 0x22] @ '' creator='' @ [CHR 0x22]
        @ ''google-saved-to-gpx'' @ [CHR 0x22] @ '' xmlns='' @ [CHR 0x22]
        @ ''http://www.topografix.com/GPX/1/1'' @ [CHR 0x22] @ '' xmlns:xsi='' @ [CHR 0x22]
        @ ''http://www.w3.org/2001/XMLSchema-instance'' @ [CHR 0x22]
        @ '' xsi:schemaLocation='' @ [CHR 0x22]
        @ ''http://www.topografix.com/GPX/1/1 http://www.topografix.com/GPX/1/1/gpx.xsd''
        @ [CHR 0x22] @ ''>'']"

definition json_to_gpx :: "pylib \<Rightarrow> json \<Rightarrow> pyerr + string" where
  "json_to_gpx lib data =
     (case gpx_wpts lib data of
        Inl e \<Rightarrow> Inl e
      | Inr wpts \<Rightarrow> Inr (py_join [CHR 0x0A] (gpx_header @ wpts @ [''</gpx>''])))"

text \<open>
  A library for evaluating the functions on inputs that have no host in square brackets
  and no float, list or dictionary where a text is expected.
\<close>

definition sample_lib :: pylib where
  "sample_lib = \<lparr>repr_of = (\<lambda>v. ''<repr>''), bracketed_host_ok = (\<lambda>h. True)\<rparr>"

section \<open>Definitions that follow the specification\<close>


definition alt_value :: "(string \<times> json) list \<Rightarrow> string \<Rightarrow> string \<Rightarrow> json" where
  \<comment> \<open>two spellings of a key: the value of the first when it is present and truthy, the
      value of the second (None when it is absent) when the first is absent or falsy\<close>
  "alt_value props k1 k2 =
     (case map_of props k1 of
        Some v \<Rightarrow> if truthy v then v else py_get props k2
      | None \<Rightarrow> py_get props k2)"




section \<open>The URL coordinate parser and its exceptions\<close>

text \<open>
  Claim C3: for every string, the URL coordinate parser returns a pair or "not found" and
  never raises. The parser guards its two calls of \<^verbatim>\<open>float()\<close> with
  \<^verbatim>\<open>try ... except ValueError\<close>, but not its call of \<^verbatim>\<open>urlparse\<close>, which raises
  ValueError ("Invalid IPv6 URL") on a network location with one square bracket. On the
  text \<^verbatim>\<open>http://[\<close> the regular expression finds nothing, \<^verbatim>\<open>urlparse\<close> is reached, and
  the exception leaves the parser, whatever the library parameters are.
\<close>

theorem parse_latlon_from_url_raises:
  "parse_latlon_from_url lib ''http://['' = Inl ValueError"
  by code_simp

text \<open>
  The exception of \<^verbatim>\<open>urlparse\<close> is the only one that leaves the parser.
\<close>

lemma urlparse_query_error: "urlparse_query lib url = Inl e \<Longrightarrow> e = ValueError"
  by (simp add: urlparse_query_def Let_def split: if_splits)

lemma parse_latlon_from_url_error:
  assumes "parse_latlon_from_url lib url = Inl e"
  shows "e = ValueError \<and> urlparse_query lib url = Inl ValueError"
proof (cases "urlparse_query lib url")
  case (Inl e')
  with assms have "e = e'"
    by (simp add: parse_latlon_from_url_def split: if_splits option.splits prod.splits)
  with Inl urlparse_query_error [OF Inl] show ?thesis by simp
next
  case (Inr query)
  with assms show ?thesis
    by (simp add: parse_latlon_from_url_def split: if_splits option.splits prod.splits)
qed

section \<open>The coordinate resolver\<close>

text \<open>
  Claim C2: when an element of a Point's coordinates is of the wrong type or is text that
  is no number, the resolver takes the geometry as absent and goes on to the URL without
  raising. The resolver tests that the coordinates are a list of two elements that are
  not None, and then calls \<^verbatim>\<open>float()\<close> on them outside any \<^verbatim>\<open>try\<close>: on the text
  \<^verbatim>\<open>abc\<close> the ValueError leaves the resolver (a list or a dictionary gives TypeError),
  although the URL of the same feature holds coordinates.
\<close>

theorem extract_lat_lon_bad_element_raises:
  "extract_lat_lon lib
     (JObj [(''geometry'', JObj [(''type'', JStr ''Point''),
                                 (''coordinates'', JList [JStr ''abc'', JFloat (Num 1)])]),
            (''properties'',
             JObj [(''google_maps_url'', JStr ''https://maps.google.com/?q=50.8,-0.1'')])])
     = Inl ValueError
   \<and> extract_lat_lon lib
     (JObj [(''geometry'', JObj [(''type'', JStr ''Point''),
                                 (''coordinates'', JList [JList [], JFloat (Num 1)])]),
            (''properties'',
             JObj [(''google_maps_url'', JStr ''https://maps.google.com/?q=50.8,-0.1'')])])
     = Inl TypeError
   \<and> url_lat_lon lib
     (JObj [(''google_maps_url'', JStr ''https://maps.google.com/?q=50.8,-0.1'')])
     = Inr (Some (Num (508 / 10), Num (- 1 / 10)))"
  by code_simp

subsection \<open>Reading dictionaries\<close>

lemma py_get_Some: "map_of d k = Some v \<Longrightarrow> py_get d k = v"
  by (simp add: py_get_def)

lemma py_get_None: "map_of d k = None \<Longrightarrow> py_get d k = JNull"
  by (simp add: py_get_def)

lemma py_or_truthy: "truthy a \<Longrightarrow> py_or a b = a"
  by (simp add: py_or_def)

lemma py_or_falsy: "\<not> truthy a \<Longrightarrow> py_or a b = b"
  by (simp add: py_or_def)

lemma map_of_nonempty: "map_of d k = Some v \<Longrightarrow> d \<noteq> []"
  by auto


lemma py_float_not_null: "py_float c = Inr x \<Longrightarrow> c \<noteq> JNull"
  by (cases c) (auto simp: py_float_def)

lemma geometry_point:
  assumes "map_of g ''type'' = Some (JStr ''Point'')"
    and "map_of g ''coordinates'' = Some (JList (c0 # c1 # cs))"
    and "py_float c0 = Inr x0" and "py_float c1 = Inr x1"
  shows "geometry_lat_lon (JObj g) =
           (if near_zero x1 \<and> near_zero x0 then Inr None else Inr (Some (x1, x0)))"
  using assms py_float_not_null [of c0 x0] py_float_not_null [of c1 x1]
  by (simp add: geometry_lat_lon_def py_get_Some)

lemma map_of_filter_key:
  "map_of (filter (\<lambda>kv. fst kv \<noteq> k) d) k' = (if k' = k then None else map_of d k')"
  by (induction d) auto

subsection \<open>Coordinates taken from the geometry\<close>



text \<open>
  Claim C5: for every feature whose geometry is a Point with both coordinates within
  1e-12 of zero, the resolver takes the geometry as absent and goes on to the URL: its
  result is the result of step 2 on the properties, which is also its result on the same
  feature without the geometry key. So it returns "no coordinates" exactly when the URL
  gives none.
\<close>

theorem extract_lat_lon_placeholder:
  assumes "map_of f ''geometry'' = Some (JObj g)"
    and "map_of g ''type'' = Some (JStr ''Point'')"
    and "map_of g ''coordinates'' = Some (JList (c0 # c1 # cs))"
    and "py_float c0 = Inr x0" and "py_float c1 = Inr x1"
    and "near_zero x0" and "near_zero x1"
  shows "extract_lat_lon lib (JObj f) = url_lat_lon lib (py_or (py_get f ''properties'') (JObj []))
       \<and> extract_lat_lon lib (JObj f)
           = extract_lat_lon lib (JObj (filter (\<lambda>kv. fst kv \<noteq> ''geometry'') f))"
proof -
  have g: "g \<noteq> []" using assms(2) by auto
  have geom: "py_or (py_get f ''geometry'') (JObj []) = JObj g"
    using assms(1) g by (simp add: py_get_Some py_or_truthy)
  have step1: "geometry_lat_lon (JObj g) = Inr None"
    using geometry_point [OF assms(2,3,4,5)] assms(6,7) by simp
  have first: "extract_lat_lon lib (JObj f)
                 = url_lat_lon lib (py_or (py_get f ''properties'') (JObj []))"
    by (simp add: extract_lat_lon_def geom step1)
  have no_geom: "py_or (py_get (filter (\<lambda>kv. fst kv \<noteq> ''geometry'') f) ''geometry'') (JObj [])
                   = JObj []"
    by (simp add: py_get_def py_or_def map_of_filter_key)
  have props: "py_get (filter (\<lambda>kv. fst kv \<noteq> ''geometry'') f) ''properties''
                 = py_get f ''properties''"
    by (simp add: py_get_def map_of_filter_key)
  have empty: "geometry_lat_lon (JObj []) = Inr None"
    by (simp add: geometry_lat_lon_def py_get_def)
  have "extract_lat_lon lib (JObj (filter (\<lambda>kv. fst kv \<noteq> ''geometry'') f))
          = url_lat_lon lib (py_or (py_get f ''properties'') (JObj []))"
    by (simp add: extract_lat_lon_def no_geom props empty)
  with first show ?thesis by simp
qed

theorem extract_lat_lon_placeholder_witness:
  "extract_lat_lon sample_lib
     (JObj [(''geometry'', JObj [(''type'', JStr ''Point''),
                                 (''coordinates'', JList [JFloat (Num 0), JInt 0])]),
            (''properties'',
             JObj [(''google_maps_url'', JStr ''https://maps.google.com/?q=50.8,-0.1'')])])
   = url_lat_lon sample_lib
       (py_or (py_get [(''geometry'', JObj [(''type'', JStr ''Point''),
                                 (''coordinates'', JList [JFloat (Num 0), JInt 0])]),
            (''properties'',
             JObj [(''google_maps_url'', JStr ''https://maps.google.com/?q=50.8,-0.1'')])] ''properties'') (JObj []))
   \<and> extract_lat_lon sample_lib
     (JObj [(''geometry'', JObj [(''type'', JStr ''Point''),
                                 (''coordinates'', JList [JFloat (Num 0), JInt 0])]),
            (''properties'',
             JObj [(''google_maps_url'', JStr ''https://maps.google.com/?q=50.8,-0.1'')])])
   = extract_lat_lon sample_lib
       (JObj (filter (\<lambda>kv. fst kv \<noteq> ''geometry'')
          [(''geometry'', JObj [(''type'', JStr ''Point''),
                                 (''coordinates'', JList [JFloat (Num 0), JInt 0])]),
            (''properties'',
             JObj [(''google_maps_url'', JStr ''https://maps.google.com/?q=50.8,-0.1'')])]))"
  by (rule extract_lat_lon_placeholder
        [where g = "[(''type'', JStr ''Point''), (''coordinates'', JList [JFloat (Num 0), JInt 0])]"
           and ?c0.0 = "JFloat (Num 0)" and ?c1.0 = "JInt 0" and cs = "[]"
           and ?x0.0 = "Num 0" and ?x1.0 = "Num 0"])
     (simp_all add: py_float_def near_zero_def py_abs_lt_def)

section \<open>The features of the document\<close>

lemma features_of_falsy:
  "\<not> truthy (py_get d ''features'') \<Longrightarrow> features_of (JObj d) = Inr []"
  by (simp add: features_of_def py_or_def py_iter_def)

text \<open>
  Claim C6: a document whose \<^verbatim>\<open>features\<close> key is absent or holds a value that is no
  list gives an empty output list. The pipelines read \<^verbatim>\<open>data.get("features") or []\<close>
  and loop over the result, with no test that it is a list (the GPX file annotates it as
  \<^verbatim>\<open>List[Dict[str, Any]]\<close>). As amended: when the key is absent or its value is falsy
  (null, false, zero, an empty text, list or dictionary), the three pipelines give the
  empty list, and the GPX document has no waypoint.
\<close>

theorem features_absent_or_falsy:
  assumes "\<not> truthy (py_get d ''features'')"
  shows "json_to_rows lib (JObj d) = Inr []
       \<and> json_to_entries lib (JObj d) = Inr []
       \<and> gpx_wpts lib (JObj d) = Inr []
       \<and> json_to_gpx lib (JObj d) = Inr (py_join [CHR 0x0A] (gpx_header @ [''</gpx>'']))"
  using features_of_falsy [OF assms]
  by (simp add: json_to_rows_def json_to_entries_def gpx_wpts_def json_to_gpx_def)

theorem features_absent_or_falsy_witness:
  "json_to_rows sample_lib (JObj [(''type'', JStr ''FeatureCollection'')]) = Inr []
   \<and> json_to_entries sample_lib (JObj [(''type'', JStr ''FeatureCollection'')]) = Inr []
   \<and> gpx_wpts sample_lib (JObj [(''type'', JStr ''FeatureCollection'')]) = Inr []
   \<and> json_to_gpx sample_lib (JObj [(''type'', JStr ''FeatureCollection'')])
       = Inr (py_join [CHR 0x0A] (gpx_header @ [''</gpx>'']))"
  by (rule features_absent_or_falsy) (simp add: py_get_def)

text \<open>
  A value that is truthy and no list is iterated all the same: a dictionary gives its
  keys and a text its characters, on which \<^verbatim>\<open>feat.get\<close> raises AttributeError; a number
  or \<^verbatim>\<open>true\<close> is not iterable.
\<close>

theorem features_non_list_counterexample:
  "json_to_rows sample_lib (JObj [(''features'', JObj [(''type'', JStr ''Feature'')])])
     = Inl AttributeError
   \<and> json_to_entries sample_lib (JObj [(''features'', JObj [(''type'', JStr ''Feature'')])])
     = Inl AttributeError
   \<and> json_to_gpx sample_lib (JObj [(''features'', JObj [(''type'', JStr ''Feature'')])])
     = Inl AttributeError
   \<and> json_to_rows sample_lib (JObj [(''features'', JInt 5)]) = Inl TypeError"
  by code_simp

lemma non_dict_feature_raises:
  "(\<forall>f. feat \<noteq> JObj f) \<Longrightarrow> extract_lat_lon lib feat = Inl AttributeError"
  by (cases feat) (simp_all add: extract_lat_lon_def)

lemma features_truthy_non_list:
  assumes "truthy v" and "\<forall>xs. v \<noteq> JList xs"
  shows "py_iter v = Inl TypeError \<or> (\<exists>s rest. py_iter v = Inr (JStr s # rest))"
proof (cases v)
  case (JStr s)
  then show ?thesis using assms by (cases s) (simp_all add: py_iter_def)
next
  case (JObj d)
  then have "d \<noteq> []" using assms by simp
  then have "remdups (map fst d) \<noteq> []" by simp
  then obtain k ks where "remdups (map fst d) = k # ks" by (cases "remdups (map fst d)") auto
  then show ?thesis using JObj by (simp add: py_iter_def)
qed (use assms in \<open>simp_all add: py_iter_def\<close>)

lemma features_truthy_non_list_raises:
  assumes "truthy (py_get d ''features'')" and "\<forall>xs. py_get d ''features'' \<noteq> JList xs"
  shows "\<exists>e. json_to_rows lib (JObj d) = Inl e"
proof -
  have f: "features_of (JObj d) = py_iter (py_get d ''features'')"
    using assms(1) by (simp add: features_of_def py_or_def)
  from features_truthy_non_list [OF assms] show ?thesis
  proof
    assume "py_iter (py_get d ''features'') = Inl TypeError"
    then show ?thesis by (simp add: json_to_rows_def f)
  next
    assume "\<exists>s rest. py_iter (py_get d ''features'') = Inr (JStr s # rest)"
    then obtain s rest where "py_iter (py_get d ''features'') = Inr (JStr s # rest)" by blast
    then show ?thesis
      by (simp add: json_to_rows_def f csv_row_of_def non_dict_feature_raises)
  qed
qed

section \<open>The records that the pipeline emits\<close>

lemma geometry_not_placeholder:
  "geometry_lat_lon geom = Inr (Some (lat, lon)) \<Longrightarrow> \<not> (near_zero lat \<and> near_zero lon)"
  by (auto simp: geometry_lat_lon_def
           split: json.splits list.splits sum.splits if_splits)

lemma extract_lat_lon_source:
  assumes "extract_lat_lon lib feat = Inr (Some (lat, lon))"
  shows "\<exists>f. feat = JObj f
           \<and> (\<not> (near_zero lat \<and> near_zero lon)
              \<or> url_lat_lon lib (py_or (py_get f ''properties'') (JObj [])) = Inr (Some (lat, lon)))"
proof (cases feat)
  case (JObj f)
  show ?thesis
  proof (cases "geometry_lat_lon (py_or (py_get f ''geometry'') (JObj []))")
    case (Inl e)
    then show ?thesis using assms JObj by (simp add: extract_lat_lon_def)
  next
    case (Inr r)
    show ?thesis
    proof (cases r)
      case None
      then show ?thesis using assms JObj Inr by (simp add: extract_lat_lon_def)
    next
      case (Some ll)
      then have "geometry_lat_lon (py_or (py_get f ''geometry'') (JObj [])) = Inr (Some (lat, lon))"
        using assms JObj Inr by (simp add: extract_lat_lon_def)
      then show ?thesis using JObj geometry_not_placeholder by blast
    qed
  qed
qed (use assms in \<open>simp_all add: extract_lat_lon_def\<close>)

lemma csv_row_of_coordinates:
  assumes "csv_row_of lib feat i = Inr (Some r)"
  shows "\<exists>lat lon. extract_lat_lon lib feat = Inr (Some (lat, lon))
           \<and> row_latitude r = fmt8 lat \<and> row_longitude r = fmt8 lon"
proof (cases "extract_lat_lon lib feat")
  case (Inl e)
  then show ?thesis using assms by (simp add: csv_row_of_def)
next
  case (Inr c)
  show ?thesis
  proof (cases c)
    case None
    then show ?thesis using assms Inr by (simp add: csv_row_of_def)
  next
    case (Some ll)
    obtain lat lon where ll: "ll = (lat, lon)" by (cases ll)
    have "row_latitude r = fmt8 lat \<and> row_longitude r = fmt8 lon"
      using assms Inr Some ll
      by (auto simp: csv_row_of_def split: sum.splits json.splits)
    then show ?thesis using Inr Some ll by simp
  qed
qed

lemma collect_source:
  "collect body feats i = Inr rs \<Longrightarrow> r \<in> set rs
     \<Longrightarrow> \<exists>feat \<in> set feats. \<exists>j. body feat j = Inr (Some r)"
proof (induction feats arbitrary: i rs)
  case Nil
  then show ?case by simp
next
  case (Cons feat feats)
  from Cons.prems(1) obtain x rs' where
    x: "body feat i = Inr x" and rs': "collect body feats (i + 1) = Inr rs'"
    and rs: "rs = (case x of None \<Rightarrow> [] | Some y \<Rightarrow> [y]) @ rs'"
    by (auto split: sum.splits)
  show ?case
  proof (cases "r \<in> set rs'")
    case True
    with Cons.IH [OF rs'] show ?thesis by auto
  next
    case False
    with Cons.prems(2) rs have "x = Some r" by (cases x) auto
    with x show ?thesis by auto
  qed
qed

text \<open>
  Claim C9: every record that the pipeline emits has coordinates that are no placeholder
  (never both zero), and a feature without resolvable coordinates emits no record. The
  test for the placeholder is in step 1 of the resolver only (the docstring of the CSV
  file: "geometry.coordinates if non-zero", then the URL), so a pair parsed from the URL
  is emitted as it is. As amended: every emitted record is the record of a feature for
  which the resolver returned a pair, and holds that pair; the pair is not within 1e-12
  of zero on both axes, or it is the pair that step 2 parsed from the URL; and a feature
  for which the resolver returns "no coordinates" emits nothing.
\<close>

theorem emitted_rows_have_coordinates:
  "(\<forall>feats rows r. features_of data = Inr feats \<longrightarrow> json_to_rows lib data = Inr rows
       \<longrightarrow> r \<in> set rows
       \<longrightarrow> (\<exists>f lat lon. JObj f \<in> set feats
              \<and> extract_lat_lon lib (JObj f) = Inr (Some (lat, lon))
              \<and> row_latitude r = fmt8 lat \<and> row_longitude r = fmt8 lon
              \<and> (\<not> (near_zero lat \<and> near_zero lon)
                 \<or> url_lat_lon lib (py_or (py_get f ''properties'') (JObj []))
                      = Inr (Some (lat, lon)))))
   \<and> (\<forall>feat i. extract_lat_lon lib feat = Inr None \<longrightarrow> csv_row_of lib feat i = Inr None)"
proof (intro conjI allI impI)
  fix feats rows r
  assume feats: "features_of data = Inr feats" and rows: "json_to_rows lib data = Inr rows"
    and r: "r \<in> set rows"
  from feats rows have "collect (csv_row_of lib) feats 1 = Inr rows"
    by (simp add: json_to_rows_def)
  from collect_source [OF this r] obtain feat j where
    feat: "feat \<in> set feats" and row: "csv_row_of lib feat j = Inr (Some r)" by blast
  from csv_row_of_coordinates [OF row] obtain lat lon where
    ll: "extract_lat_lon lib feat = Inr (Some (lat, lon))"
    and fmt: "row_latitude r = fmt8 lat" "row_longitude r = fmt8 lon" by blast
  from extract_lat_lon_source [OF ll] obtain f where
    "feat = JObj f" and
    "\<not> (near_zero lat \<and> near_zero lon)
       \<or> url_lat_lon lib (py_or (py_get f ''properties'') (JObj [])) = Inr (Some (lat, lon))"
    by blast
  with feat ll fmt
  show "\<exists>f lat lon. JObj f \<in> set feats
              \<and> extract_lat_lon lib (JObj f) = Inr (Some (lat, lon))
              \<and> row_latitude r = fmt8 lat \<and> row_longitude r = fmt8 lon
              \<and> (\<not> (near_zero lat \<and> near_zero lon)
                 \<or> url_lat_lon lib (py_or (py_get f ''properties'') (JObj []))
                      = Inr (Some (lat, lon)))"
    by blast
next
  fix feat i
  assume "extract_lat_lon lib feat = Inr None"
  then show "csv_row_of lib feat i = Inr None" by (simp add: csv_row_of_def)
qed

theorem emitted_rows_have_coordinates_witness:
  "\<exists>f lat lon.
      JObj f \<in> set [JObj [(''properties'',
                           JObj [(''google_maps_url'', JStr ''https://maps.google.com/?q=1.5,2'')])],
                    JObj []]
      \<and> extract_lat_lon sample_lib (JObj f) = Inr (Some (lat, lon))
      \<and> ''1.50000000'' = fmt8 lat \<and> ''2.00000000'' = fmt8 lon"
proof -
  let ?data = "JObj [(''features'',
             JList [JObj [(''properties'',
                           JObj [(''google_maps_url'', JStr ''https://maps.google.com/?q=1.5,2'')])],
                    JObj []])]"
  let ?r = "\<lparr>row_name = ''Saved Place 1'', row_latitude = ''1.50000000'',
              row_longitude = ''2.00000000'',
              row_url = JStr ''https://maps.google.com/?q=1.5,2'', row_notes = []\<rparr>"
  have a: "features_of ?data = Inr [JObj [(''properties'',
                           JObj [(''google_maps_url'', JStr ''https://maps.google.com/?q=1.5,2'')])],
                    JObj []]"
    by code_simp
  have b: "json_to_rows sample_lib ?data = Inr [?r]"
    by code_simp
  have c: "?r \<in> set [?r]" by simp
  from emitted_rows_have_coordinates [of ?data sample_lib] a b c
  have "\<exists>f lat lon. JObj f \<in> set [JObj [(''properties'',
                           JObj [(''google_maps_url'', JStr ''https://maps.google.com/?q=1.5,2'')])],
                    JObj []]
              \<and> extract_lat_lon sample_lib (JObj f) = Inr (Some (lat, lon))
              \<and> row_latitude ?r = fmt8 lat \<and> row_longitude ?r = fmt8 lon
              \<and> (\<not> (near_zero lat \<and> near_zero lon)
                 \<or> url_lat_lon sample_lib (py_or (py_get f ''properties'') (JObj []))
                      = Inr (Some (lat, lon)))"
    by blast
  then obtain f lat lon where
    "JObj f \<in> set [JObj [(''properties'',
                           JObj [(''google_maps_url'', JStr ''https://maps.google.com/?q=1.5,2'')])],
                    JObj []]"
    and "extract_lat_lon sample_lib (JObj f) = Inr (Some (lat, lon))"
    and "row_latitude ?r = fmt8 lat" and "row_longitude ?r = fmt8 lon"
    by blast
  then show ?thesis by (intro exI [of _ f] exI [of _ lat] exI [of _ lon]) simp
qed

text \<open>
  The record of a feature without geometry whose URL holds \<^verbatim>\<open>?q=0,0\<close> has the latitude
  and the longitude zero.
\<close>

theorem emitted_rows_counterexample:
  "json_to_rows sample_lib
     (JObj [(''features'',
             JList [JObj [(''properties'',
                           JObj [(''google_maps_url'', JStr ''https://maps.google.com/?q=0,0'')])]])])
     = Inr [\<lparr>row_name = ''Saved Place 1'', row_latitude = ''0.00000000'',
              row_longitude = ''0.00000000'',
              row_url = JStr ''https://maps.google.com/?q=0,0'', row_notes = []\<rparr>]
   \<and> extract_lat_lon sample_lib
        (JObj [(''properties'',
                JObj [(''google_maps_url'', JStr ''https://maps.google.com/?q=0,0'')])])
     = Inr (Some (Num 0, Num 0))"
  by code_simp

section \<open>Alternate spellings of a key\<close>

lemma alt_value_py_or: "alt_value props k1 k2 = py_or (py_get props k1) (py_get props k2)"
  by (simp add: alt_value_def py_or_def py_get_def split: option.splits)

text \<open>
  Claim C10: where a property has two spellings, the resolvers read them in a fixed
  order, and the second is used whenever the first is absent or falsy: the URL is read
  from \<^verbatim>\<open>google_maps_url\<close> before \<^verbatim>\<open>Google Maps URL\<close>, the comment from \<^verbatim>\<open>Comment\<close>
  before \<^verbatim>\<open>comment\<close>. This holds of step 2 of the coordinate resolver, of the name derived
  from the URL, of the URL part and the comment part of the annotation, and of the URL
  field of the CSV and HTML records.
\<close>

theorem alternate_keys_priority:
  "url_lat_lon lib (JObj props)
     = (case alt_value props ''google_maps_url'' ''Google Maps URL'' of
          JStr url \<Rightarrow> parse_latlon_from_url lib url
        | _ \<Rightarrow> Inr None)
   \<and> url_name lib props
     = (case alt_value props ''google_maps_url'' ''Google Maps URL'' of
          JStr url \<Rightarrow> derive_name_from_url lib url
        | _ \<Rightarrow> Inr None)
   \<and> url_part props
     = (case alt_value props ''google_maps_url'' ''Google Maps URL'' of
          JStr url \<Rightarrow> [''Google Maps: '' @ url]
        | _ \<Rightarrow> [])
   \<and> comment_part lib props
     = (if truthy (alt_value props ''Comment'' ''comment'')
        then [py_str lib (alt_value props ''Comment'' ''comment'')] else [])
   \<and> (\<forall>f i r. py_or (py_get f ''properties'') (JObj []) = JObj props
         \<longrightarrow> csv_row_of lib (JObj f) i = Inr (Some r)
         \<longrightarrow> row_url r = py_or (alt_value props ''google_maps_url'' ''Google Maps URL'') (JStr []))
   \<and> (\<forall>f i e. py_or (py_get f ''properties'') (JObj []) = JObj props
         \<longrightarrow> html_entry_of lib (JObj f) i = Inr (Some e)
         \<longrightarrow> entry_gmaps_url e
               = py_or (alt_value props ''google_maps_url'' ''Google Maps URL'') (JStr []))"
proof (intro conjI allI impI)
  show "url_lat_lon lib (JObj props)
     = (case alt_value props ''google_maps_url'' ''Google Maps URL'' of
          JStr url \<Rightarrow> parse_latlon_from_url lib url
        | _ \<Rightarrow> Inr None)"
    by (simp add: url_lat_lon_def alt_value_py_or)
  show "url_name lib props
     = (case alt_value props ''google_maps_url'' ''Google Maps URL'' of
          JStr url \<Rightarrow> derive_name_from_url lib url
        | _ \<Rightarrow> Inr None)"
    by (simp add: url_name_def alt_value_py_or)
  show "url_part props
     = (case alt_value props ''google_maps_url'' ''Google Maps URL'' of
          JStr url \<Rightarrow> [''Google Maps: '' @ url]
        | _ \<Rightarrow> [])"
    by (simp add: url_part_def alt_value_py_or)
  show "comment_part lib props
     = (if truthy (alt_value props ''Comment'' ''comment'')
        then [py_str lib (alt_value props ''Comment'' ''comment'')] else [])"
    by (simp add: comment_part_def alt_value_py_or Let_def)
next
  fix f i r
  assume p: "py_or (py_get f ''properties'') (JObj []) = JObj props"
    and r: "csv_row_of lib (JObj f) i = Inr (Some r)"
  from r p show "row_url r = py_or (alt_value props ''google_maps_url'' ''Google Maps URL'') (JStr [])"
    by (auto simp: csv_row_of_def get_attr_def alt_value_py_or
             split: sum.splits option.splits)
next
  fix f i e
  assume p: "py_or (py_get f ''properties'') (JObj []) = JObj props"
    and e: "html_entry_of lib (JObj f) i = Inr (Some e)"
  from e p show "entry_gmaps_url e
                   = py_or (alt_value props ''google_maps_url'' ''Google Maps URL'') (JStr [])"
    by (auto simp: html_entry_of_def get_attr_def alt_value_py_or
             split: sum.splits option.splits)
qed

theorem alternate_keys_priority_witness:
  "url_lat_lon sample_lib
     (JObj [(''google_maps_url'', JStr []),
            (''Google Maps URL'', JStr ''https://maps.google.com/?q=1.5,2''),
            (''comment'', JStr ''seen''), (''Comment'', JNull)])
     = Inr (Some (Num (3 / 2), Num 2))
   \<and> comment_part sample_lib
        [(''google_maps_url'', JStr []),
         (''Google Maps URL'', JStr ''https://maps.google.com/?q=1.5,2''),
         (''comment'', JStr ''seen''), (''Comment'', JNull)]
     = [''seen'']"
proof -
  let ?p = "[(''google_maps_url'', JStr []),
             (''Google Maps URL'', JStr ''https://maps.google.com/?q=1.5,2''),
             (''comment'', JStr ''seen''), (''Comment'', JNull)]"
  have u: "alt_value ?p ''google_maps_url'' ''Google Maps URL''
             = JStr ''https://maps.google.com/?q=1.5,2''"
    by (simp add: alt_value_def py_get_def)
  have c: "alt_value ?p ''Comment'' ''comment'' = JStr ''seen''"
    by (simp add: alt_value_def py_get_def)
  have ll: "parse_latlon_from_url sample_lib ''https://maps.google.com/?q=1.5,2''
              = Inr (Some (Num (3 / 2), Num 2))"
    by code_simp
  from alternate_keys_priority [of sample_lib ?p] show ?thesis
    by (simp add: u c ll py_str_def)
qed

section \<open>The name of a place\<close>












section \<open>The annotation\<close>

lemma py_join_middle:
  "\<exists>pre post. py_join sep (xs @ p # ys) = pre @ p @ post"
proof (cases xs)
  case Nil
  then have "py_join sep (xs @ p # ys) = [] @ p @ concat (map (\<lambda>q. sep @ q) ys)"
    by (simp add: py_join_def)
  then show ?thesis by blast
next
  case (Cons x xs')
  have "py_join sep (xs @ p # ys)
          = (x @ concat (map (\<lambda>q. sep @ q) xs') @ sep) @ p @ concat (map (\<lambda>q. sep @ q) ys)"
    using Cons by (simp add: py_join_def)
  then show ?thesis by blast
qed

lemma extract_name_and_desc_parts:
  assumes "py_or (py_get f ''properties'') (JObj []) = JObj props"
    and "extract_name_and_desc lib (JObj f) idx = Inr (n, d)"
  shows "d = py_join '' | '' (saved_part lib props
                               @ address_part lib (py_or (py_get props ''location'') (JObj []))
                               @ url_part props @ comment_part lib props)"
  using assms by (auto simp: extract_name_and_desc_def Let_def split: sum.splits)

lemma extract_name_and_notes_parts:
  assumes "py_or (py_get f ''properties'') (JObj []) = JObj props"
    and "extract_name_and_notes lib (JObj f) idx = Inr (n, d)"
  shows "d = py_join '' | '' (saved_part lib props
                               @ address_part lib (py_or (py_get props ''location'') (JObj []))
                               @ comment_part lib props)"
  using assms by (auto simp: extract_name_and_notes_def Let_def split: sum.splits)

lemma csv_row_of_fields:
  assumes "py_or (py_get f ''properties'') (JObj []) = JObj props"
    and "csv_row_of lib (JObj f) i = Inr (Some r)"
  shows "row_url r = py_or (py_or (py_get props ''google_maps_url'') (py_get props ''Google Maps URL''))
                           (JStr [])
       \<and> (\<exists>n. extract_name_and_notes lib (JObj f) i = Inr (n, row_notes r))"
  using assms(2) assms(1)
  by (auto simp: csv_row_of_def get_attr_def split: sum.splits option.splits)

lemma html_entry_of_fields:
  assumes "py_or (py_get f ''properties'') (JObj []) = JObj props"
    and "html_entry_of lib (JObj f) i = Inr (Some e)"
  shows "entry_gmaps_url e
           = py_or (py_or (py_get props ''google_maps_url'') (py_get props ''Google Maps URL''))
                   (JStr [])"
  using assms(2) assms(1)
  by (auto simp: html_entry_of_def get_attr_def split: sum.splits option.splits)

text \<open>
  Claim C1: for a feature that holds a URL, the annotation of the GPX and of the CSV
  variant has a part "Google Maps: <url>", and the HTML variant leaves it out and gives
  the URL as a field of its own. The CSV file builds its notes from the date, the address
  and the comment only (its comment: "Notes: date / address / comment") and has the
  column \<^verbatim>\<open>url\<close>. As amended: the description of the GPX variant is the date part, the
  address part, the part "Google Maps: <url>" and the comment part joined, so it
  contains that part; the notes of the CSV variant are the same parts without it, and
  the URL is the field \<^verbatim>\<open>url\<close> of the CSV record and the field \<^verbatim>\<open>gmaps_url\<close> of the HTML
  record, which has no annotation.
\<close>

theorem url_in_annotation:
  assumes "py_or (py_get f ''properties'') (JObj []) = JObj props"
    and "alt_value props ''google_maps_url'' ''Google Maps URL'' = JStr u"
  shows "(\<forall>n d. extract_name_and_desc lib (JObj f) idx = Inr (n, d)
            \<longrightarrow> d = py_join '' | ''
                       (saved_part lib props
                        @ address_part lib (py_or (py_get props ''location'') (JObj []))
                        @ [''Google Maps: '' @ u] @ comment_part lib props)
                \<and> (\<exists>pre post. d = pre @ (''Google Maps: '' @ u) @ post))
       \<and> (\<forall>n d. extract_name_and_notes lib (JObj f) idx = Inr (n, d)
            \<longrightarrow> d = py_join '' | ''
                       (saved_part lib props
                        @ address_part lib (py_or (py_get props ''location'') (JObj []))
                        @ comment_part lib props))
       \<and> (\<forall>r. csv_row_of lib (JObj f) idx = Inr (Some r)
            \<longrightarrow> row_url r = JStr u
                \<and> row_notes r = py_join '' | ''
                       (saved_part lib props
                        @ address_part lib (py_or (py_get props ''location'') (JObj []))
                        @ comment_part lib props))
       \<and> (\<forall>e. html_entry_of lib (JObj f) idx = Inr (Some e) \<longrightarrow> entry_gmaps_url e = JStr u)"
proof -
  have u: "py_or (py_get props ''google_maps_url'') (py_get props ''Google Maps URL'') = JStr u"
    using assms(2) by (simp add: alt_value_py_or)
  have up: "url_part props = [''Google Maps: '' @ u]"
    by (simp add: url_part_def u)
  have field: "py_or (JStr u) (JStr []) = JStr u"
    by (simp add: py_or_def)
  have gpx: "d = py_join '' | ''
                       (saved_part lib props
                        @ address_part lib (py_or (py_get props ''location'') (JObj []))
                        @ [''Google Maps: '' @ u] @ comment_part lib props)
                \<and> (\<exists>pre post. d = pre @ (''Google Maps: '' @ u) @ post)"
    if "extract_name_and_desc lib (JObj f) idx = Inr (n, d)" for n d
  proof -
    have d: "d = py_join '' | ''
                   ((saved_part lib props
                     @ address_part lib (py_or (py_get props ''location'') (JObj [])))
                    @ (''Google Maps: '' @ u) # comment_part lib props)"
      using extract_name_and_desc_parts [OF assms(1) that] up by simp
    with py_join_middle [of "'' | ''" "saved_part lib props
                     @ address_part lib (py_or (py_get props ''location'') (JObj []))"
                     "''Google Maps: '' @ u" "comment_part lib props"]
    show ?thesis by simp
  qed
  have csv: "d = py_join '' | ''
                       (saved_part lib props
                        @ address_part lib (py_or (py_get props ''location'') (JObj []))
                        @ comment_part lib props)"
    if "extract_name_and_notes lib (JObj f) idx = Inr (n, d)" for n d
    using extract_name_and_notes_parts [OF assms(1) that] .
  have row: "row_url r = JStr u
                \<and> row_notes r = py_join '' | ''
                       (saved_part lib props
                        @ address_part lib (py_or (py_get props ''location'') (JObj []))
                        @ comment_part lib props)"
    if "csv_row_of lib (JObj f) idx = Inr (Some r)" for r
    using csv_row_of_fields [OF assms(1) that] csv u field by auto
  have entry: "entry_gmaps_url e = JStr u"
    if "html_entry_of lib (JObj f) idx = Inr (Some e)" for e
    using html_entry_of_fields [OF assms(1) that] u field by simp
  from gpx csv row entry show ?thesis by blast
qed

theorem url_in_annotation_witness:
  "extract_name_and_desc sample_lib
     (JObj [(''properties'', JObj [(''date'', JStr ''2021-05-01''),
                                   (''Google Maps URL'', JStr ''https://maps.google.com/?q=1,2''),
                                   (''comment'', JStr ''seen'')])]) 1
     = Inr (''Saved Place 1'',
            ''Saved: 2021-05-01 | Google Maps: https://maps.google.com/?q=1,2 | seen'')
   \<and> (\<exists>pre post. ''Saved: 2021-05-01 | Google Maps: https://maps.google.com/?q=1,2 | seen''
          = pre @ (''Google Maps: '' @ ''https://maps.google.com/?q=1,2'') @ post)"
proof -
  let ?p = "[(''date'', JStr ''2021-05-01''),
             (''Google Maps URL'', JStr ''https://maps.google.com/?q=1,2''),
             (''comment'', JStr ''seen'')]"
  have e: "extract_name_and_desc sample_lib (JObj [(''properties'', JObj ?p)]) 1
     = Inr (''Saved Place 1'',
            ''Saved: 2021-05-01 | Google Maps: https://maps.google.com/?q=1,2 | seen'')"
    by code_simp
  have p: "py_or (py_get [(''properties'', JObj ?p)] ''properties'') (JObj []) = JObj ?p"
    by (simp add: py_or_def py_get_def)
  have a: "alt_value ?p ''google_maps_url'' ''Google Maps URL''
             = JStr ''https://maps.google.com/?q=1,2''"
    by (simp add: alt_value_def py_get_def)
  from url_in_annotation [OF p a, of sample_lib 1] e
  have "\<exists>pre post. ''Saved: 2021-05-01 | Google Maps: https://maps.google.com/?q=1,2 | seen''
          = pre @ (''Google Maps: '' @ ''https://maps.google.com/?q=1,2'') @ post"
    by blast
  with e show ?thesis by blast
qed

text \<open>
  The notes of the CSV variant for a feature that holds a URL and nothing else are empty,
  where the description of the GPX variant is the URL part.
\<close>

theorem url_in_annotation_counterexample:
  "extract_name_and_notes sample_lib
     (JObj [(''properties'', JObj [(''google_maps_url'', JStr ''https://maps.google.com/?q=1,2'')])]) 1
     = Inr (''Saved Place 1'', [])
   \<and> extract_name_and_desc sample_lib
     (JObj [(''properties'', JObj [(''google_maps_url'', JStr ''https://maps.google.com/?q=1,2'')])]) 1
     = Inr (''Saved Place 1'', ''Google Maps: https://maps.google.com/?q=1,2'')"
  by code_simp

subsection \<open>The date and the address\<close>

lemma resolve_name_no_url:
  assumes "\<forall>u. alt_value props ''google_maps_url'' ''Google Maps URL'' \<noteq> JStr u"
  shows "\<exists>n. resolve_name lib props loc idx = Inr n"
proof -
  have "url_name lib props = Inr None"
    using assms by (auto simp: url_name_def alt_value_py_or split: json.splits)
  then show ?thesis by (simp add: resolve_name_def Let_def)
qed

text \<open>
  Claim C8: for every feature with the date 2021-05-01, the address "1 Main St" and no
  comment, the annotation is exactly "Saved: 2021-05-01 | Address: 1 Main St". The GPX
  variant adds the URL part after the address when the feature holds a URL (claim C1).
  As amended: the notes of the CSV variant are exactly this text whenever the function
  returns; and when the feature holds no URL text, the GPX and the CSV variant both
  return, with exactly this text as description and as notes.
\<close>

theorem annotation_date_address:
  assumes "py_or (py_get f ''properties'') (JObj []) = JObj props"
    and "py_get props ''date'' = JStr ''2021-05-01''"
    and "py_get props ''location'' = JObj l"
    and "py_get l ''address'' = JStr ''1 Main St''"
    and "\<not> truthy (alt_value props ''Comment'' ''comment'')"
  shows "(\<forall>n d. extract_name_and_notes lib (JObj f) idx = Inr (n, d)
            \<longrightarrow> d = ''Saved: 2021-05-01 | Address: 1 Main St'')
       \<and> ((\<forall>u. alt_value props ''google_maps_url'' ''Google Maps URL'' \<noteq> JStr u)
            \<longrightarrow> (\<exists>n. extract_name_and_desc lib (JObj f) idx
                         = Inr (n, ''Saved: 2021-05-01 | Address: 1 Main St'')
                    \<and> extract_name_and_notes lib (JObj f) idx
                         = Inr (n, ''Saved: 2021-05-01 | Address: 1 Main St'')))"
proof -
  have l: "l \<noteq> []" using assms(4) by (auto simp: py_get_def)
  have loc: "py_or (py_get props ''location'') (JObj []) = JObj l"
    using assms(3) l by (simp add: py_or_def)
  have sp: "saved_part lib props = [''Saved: 2021-05-01'']"
    using assms(2) by (simp add: saved_part_def py_str_def)
  have ap: "address_part lib (JObj l) = [''Address: 1 Main St'']"
    using assms(4) by (simp add: address_part_def py_str_def)
  have cp: "comment_part lib props = []"
    using assms(5) by (simp add: comment_part_def alt_value_py_or Let_def)
  have j: "py_join '' | '' [''Saved: 2021-05-01'', ''Address: 1 Main St'']
             = ''Saved: 2021-05-01 | Address: 1 Main St''"
    by (simp add: py_join_def)
  have csv: "d = ''Saved: 2021-05-01 | Address: 1 Main St''"
    if "extract_name_and_notes lib (JObj f) idx = Inr (n, d)" for n d
    using extract_name_and_notes_parts [OF assms(1) that] loc sp ap cp j by simp
  have gpx: "\<exists>n. extract_name_and_desc lib (JObj f) idx
                         = Inr (n, ''Saved: 2021-05-01 | Address: 1 Main St'')
                    \<and> extract_name_and_notes lib (JObj f) idx
                         = Inr (n, ''Saved: 2021-05-01 | Address: 1 Main St'')"
    if no_url: "\<forall>u. alt_value props ''google_maps_url'' ''Google Maps URL'' \<noteq> JStr u"
  proof -
    from resolve_name_no_url [OF no_url, of lib "JObj l" idx]
    obtain n where n: "resolve_name lib props (JObj l) idx = Inr n" by blast
    have up: "url_part props = []"
      using no_url by (auto simp: url_part_def alt_value_py_or split: json.splits)
    have "extract_name_and_desc lib (JObj f) idx
            = Inr (n, ''Saved: 2021-05-01 | Address: 1 Main St'')"
      using assms(1) loc n sp ap cp up j by (simp add: extract_name_and_desc_def)
    moreover have "extract_name_and_notes lib (JObj f) idx
            = Inr (n, ''Saved: 2021-05-01 | Address: 1 Main St'')"
      using assms(1) loc n sp ap cp j by (simp add: extract_name_and_notes_def)
    ultimately show ?thesis by blast
  qed
  from csv gpx show ?thesis by blast
qed

theorem annotation_date_address_witness:
  "\<exists>n. extract_name_and_desc sample_lib
          (JObj [(''properties'',
                  JObj [(''date'', JStr ''2021-05-01''),
                        (''location'', JObj [(''address'', JStr ''1 Main St'')])])]) 3
          = Inr (n, ''Saved: 2021-05-01 | Address: 1 Main St'')
      \<and> extract_name_and_notes sample_lib
          (JObj [(''properties'',
                  JObj [(''date'', JStr ''2021-05-01''),
                        (''location'', JObj [(''address'', JStr ''1 Main St'')])])]) 3
          = Inr (n, ''Saved: 2021-05-01 | Address: 1 Main St'')"
proof -
  let ?p = "[(''date'', JStr ''2021-05-01''),
             (''location'', JObj [(''address'', JStr ''1 Main St'')])]"
  have p: "py_or (py_get [(''properties'', JObj ?p)] ''properties'') (JObj []) = JObj ?p"
    by (simp add: py_or_def py_get_def)
  have d: "py_get ?p ''date'' = JStr ''2021-05-01''" by (simp add: py_get_def)
  have lo: "py_get ?p ''location'' = JObj [(''address'', JStr ''1 Main St'')]"
    by (simp add: py_get_def)
  have a: "py_get [(''address'', JStr ''1 Main St'')] ''address'' = JStr ''1 Main St''"
    by (simp add: py_get_def)
  have c: "\<not> truthy (alt_value ?p ''Comment'' ''comment'')"
    by (simp add: alt_value_def py_get_def)
  have u: "\<forall>u. alt_value ?p ''google_maps_url'' ''Google Maps URL'' \<noteq> JStr u"
    by (simp add: alt_value_def py_get_def)
  from annotation_date_address [OF p d lo a c, of sample_lib 3] u
  show ?thesis by blast
qed

text \<open>
  With a URL, the description of the GPX variant has a third part.
\<close>

theorem annotation_date_address_counterexample:
  "extract_name_and_desc sample_lib
     (JObj [(''properties'',
             JObj [(''date'', JStr ''2021-05-01''),
                   (''location'', JObj [(''address'', JStr ''1 Main St'')]),
                   (''google_maps_url'', JStr ''https://maps.google.com/?q=1,2'')])]) 3
     = Inr (''Saved Place 3'',
            ''Saved: 2021-05-01 | Address: 1 Main St | Google Maps: https://maps.google.com/?q=1,2'')"
  by code_simp

end
